theory Spec2Isabelle
  imports Main
begin

section \<open>Python primitives used by the handlers\<close>

text \<open>
  The handlers of \<^verbatim>\<open>approutes.py\<close> are glue code around a few Python primitives:
  \<^verbatim>\<open>str(int)\<close> and the format \<^verbatim>\<open>{i:03d}\<close>, \<^verbatim>\<open>str.lower\<close>, substring
  containment, \<^verbatim>\<open>str.startswith\<close>, \<^verbatim>\<open>range\<close> and list slicing. They are modelled
  here on Python's unbounded integers (\<open>int\<close>) and on strings as character lists.
  A character is a code point below 256 (Isabelle's \<open>char\<close>); every string the
  handlers build themselves is ASCII.

  Fields whose value is a float or depends on the clock (\<^verbatim>\<open>time.time()\<close>, the
  \<^verbatim>\<open>created_at\<close>, \<^verbatim>\<open>timestamp\<close> and \<^verbatim>\<open>relevance\<close> entries, \<^verbatim>\<open>uuid4\<close>) are left out of
  the response records: no handler branches on them.
\<close>

definition digit_char :: "nat \<Rightarrow> char" where
  "digit_char d = ''0123456789'' ! d"

fun str_nat :: "nat \<Rightarrow> string" where
  "str_nat n = (if n < 10 then [digit_char n] else str_nat (n div 10) @ [digit_char (n mod 10)])"

declare str_nat.simps [simp del]

text \<open>\<^verbatim>\<open>str(i)\<close> and \<^verbatim>\<open>f"{i}"\<close> for an integer.\<close>

definition py_str :: "int \<Rightarrow> string" where
  "py_str i = (if i < 0 then CHR ''-'' # str_nat (nat (- i)) else str_nat (nat i))"

text \<open>\<^verbatim>\<open>f"{i:03d}"\<close>: zero padding to width 3, the sign counted in the width.\<close>

definition format_03d :: "int \<Rightarrow> string" where
  "format_03d i =
     (let ds = str_nat (nat \<bar>i\<bar>) in
      if i < 0 then CHR ''-'' # replicate (2 - length ds) CHR ''0'' @ ds
      else replicate (3 - length ds) CHR ''0'' @ ds)"

text \<open>\<^verbatim>\<open>str.lower\<close>: the upper-case letters below 256 are \<^verbatim>\<open>A\<close> to \<^verbatim>\<open>Z\<close> and the code
  points 192 to 222 without 215, each 32 below its lower-case letter.\<close>

definition lower_char :: "char \<Rightarrow> char" where
  "lower_char c =
     (let n = (of_char c :: nat) in
      if (65 \<le> n \<and> n \<le> 90) \<or> (192 \<le> n \<and> n \<le> 222 \<and> n \<noteq> 215)
      then char_of (n + 32) else c)"

definition lower :: "string \<Rightarrow> string" where
  "lower s = map lower_char s"

definition startswith :: "string \<Rightarrow> string \<Rightarrow> bool" where
  "startswith s p = (take (length p) s = p)"

text \<open>\<^verbatim>\<open>sub in s\<close> for strings.\<close>

fun py_in :: "string \<Rightarrow> string \<Rightarrow> bool" where
  "py_in sub [] = (sub = [])"
| "py_in sub (c # cs) = (startswith (c # cs) sub \<or> py_in sub cs)"

text \<open>\<^verbatim>\<open>str.isspace\<close> on one character, and \<^verbatim>\<open>str.strip()\<close>.\<close>

definition isspace :: "char \<Rightarrow> bool" where
  "isspace c = ((of_char c :: nat) \<in> set [9, 10, 11, 12, 13, 28, 29, 30, 31, 32, 133, 160])"

definition py_strip :: "string \<Rightarrow> string" where
  "py_strip s = rev (dropWhile isspace (rev (dropWhile isspace s)))"

text \<open>A match of the pattern \<^verbatim>\<open>[0-9]+\<close> against a whole path segment, and \<^verbatim>\<open>int\<close> of
  such a run of digits.\<close>

definition is_digit :: "char \<Rightarrow> bool" where
  "is_digit c = (48 \<le> (of_char c :: nat) \<and> (of_char c :: nat) \<le> 57)"

definition all_digits :: "string \<Rightarrow> bool" where
  "all_digits s = (s \<noteq> [] \<and> list_all is_digit s)"

definition digits_value :: "string \<Rightarrow> nat" where
  "digits_value s = foldl (\<lambda>acc c. 10 * acc + ((of_char c :: nat) - 48)) 0 s"

text \<open>\<^verbatim>\<open>range(a, b)\<close> as the list of its elements.\<close>

definition py_range :: "int \<Rightarrow> int \<Rightarrow> int list" where
  "py_range a b = [a..b - 1]"

text \<open>
  \<^verbatim>\<open>xs[start:stop]\<close>: a negative index counts from the end, and both indices are
  clipped to \<open>0..len(xs)\<close>; the slice is empty when the adjusted stop is not beyond
  the adjusted start.
\<close>

definition adjust_index :: "int \<Rightarrow> nat \<Rightarrow> nat" where
  "adjust_index i n =
     (if i < 0 then (if i + int n < 0 then 0 else nat (i + int n))
      else if int n \<le> i then n else nat i)"

definition py_slice :: "'a list \<Rightarrow> int \<Rightarrow> int \<Rightarrow> 'a list" where
  "py_slice xs start stop =
     (let n = length xs; lo = adjust_index start n; hi = adjust_index stop n
      in take (hi - lo) (drop lo xs))"

section \<open>Requests and responses\<close>

text \<open>
  A query argument that the handler converts with \<^verbatim>\<open>int\<close>, as the outcome of the
  conversion of the value the framework's accessor returns: the argument is absent,
  or \<^verbatim>\<open>int\<close> returns an integer, or \<^verbatim>\<open>int\<close> raises \<^verbatim>\<open>ValueError\<close>.
\<close>

datatype param = Absent | IntVal int | Malformed

datatype py_exception =
    ValueError | AttributeError | RuntimeError | WebSocketClosedError | RecursionError
  | ValidationError

text \<open>
  A response is a JSON body with a status code. Three outcomes are the framework's:
  a request that fails the parameter constraints a FastAPI handler declares
  (\<^verbatim>\<open>Query(..., min_length=1)\<close>, \<^verbatim>\<open>Path(..., gt=0)\<close>) is answered with status 422 and
  the handler body does not run; an exception that leaves a handler is answered
  with status 500; \<open>FrameworkError c\<close> is an error response of the framework's own with
  status \<open>c\<close>, such as the 404 of a router that finds no route for the path.
\<close>

datatype 'a response =
    Json nat 'a
  | ErrorJson nat string
  | RequestValidationError
  | Unhandled py_exception
  | FrameworkError nat

fun status :: "'a response \<Rightarrow> nat" where
  "status (Json c b) = c"
| "status (ErrorJson c m) = c"
| "status RequestValidationError = 422"
| "status (Unhandled e) = 500"
| "status (FrameworkError c) = c"

fun body :: "'a response \<Rightarrow> 'a option" where
  "body (Json c b) = Some b"
| "body (ErrorJson c m) = None"
| "body RequestValidationError = None"
| "body (Unhandled e) = None"
| "body (FrameworkError c) = None"

text \<open>Flask's \<^verbatim>\<open>request.args.get(key, default, type=int)\<close>: the default when the
  conversion fails.\<close>

definition flask_arg_int :: "param \<Rightarrow> int \<Rightarrow> int" where
  "flask_arg_int p d = (case p of IntVal n \<Rightarrow> n | Absent \<Rightarrow> d | Malformed \<Rightarrow> d)"

text \<open>\<^verbatim>\<open>int(params.get(key, default))\<close> of Starlette and Tornado: the conversion
  raises.\<close>

definition int_arg :: "param \<Rightarrow> int \<Rightarrow> py_exception + int" where
  "int_arg p d = (case p of IntVal n \<Rightarrow> Inr n | Absent \<Rightarrow> Inr d | Malformed \<Rightarrow> Inl ValueError)"

definition str_arg :: "string option \<Rightarrow> string \<Rightarrow> string" where
  "str_arg p d = (case p of None \<Rightarrow> d | Some s \<Rightarrow> s)"

text \<open>
  Tornado's \<^verbatim>\<open>get_argument(name, default)\<close> on the decoded value of the argument: the
  control characters \<^verbatim>\<open>[\x00-\x08\x0e-\x1f]\<close> are replaced by spaces and the value is
  stripped (\<^verbatim>\<open>strip=True\<close>); the default is returned as it is.
\<close>

definition remove_control_chars :: "string \<Rightarrow> string" where
  "remove_control_chars s =
     map (\<lambda>c. if (of_char c :: nat) \<le> 8 \<or> (14 \<le> (of_char c :: nat) \<and> (of_char c :: nat) \<le> 31)
              then CHR '' '' else c) s"

definition get_argument :: "string option \<Rightarrow> string \<Rightarrow> string" where
  "get_argument p d = (case p of None \<Rightarrow> d | Some s \<Rightarrow> py_strip (remove_control_chars s))"

section \<open>User listing\<close>

subsection \<open>Flask: \<^verbatim>\<open>get_users\<close>\<close>

record flask_users =
  f_users :: "string list"
  f_page :: int
  f_limit :: int
  f_total :: int
  f_has_next :: bool

definition flask_all_users :: "string list" where
  "flask_all_users = map (\<lambda>i. ''User_'' @ py_str i) (py_range 1 101)"

definition flask_get_users :: "param \<Rightarrow> param \<Rightarrow> flask_users response" where
  "flask_get_users page_arg limit_arg =
     (let page = flask_arg_int page_arg 1;
          limit = flask_arg_int limit_arg 10;
          all_users = flask_all_users;
          start = (page - 1) * limit;
          end = start + limit;
          users = py_slice all_users start end
      in Json 200 \<lparr>f_users = users, f_page = page, f_limit = limit,
                    f_total = int (length all_users),
                    f_has_next = (end < int (length all_users))\<rparr>)"

subsection \<open>Starlette: \<^verbatim>\<open>users_list\<close>\<close>

text \<open>The response records carry a prefix on the JSON keys, as several handlers use
  the same keys.\<close>

record pagination =
  pg_page :: int
  pg_limit :: int
  pg_total :: int
  pg_has_next :: bool
  pg_has_previous :: bool

record starlette_user =
  s_id :: int
  s_username :: string
  s_email :: string
  s_active :: bool

record 'u users_body =
  b_users :: "'u list"
  b_pagination :: pagination

definition starlette_all_users :: "starlette_user list" where
  "starlette_all_users =
     map (\<lambda>i. \<lparr>s_id = i, s_username = ''user_'' @ py_str i,
               s_email = ''user_'' @ py_str i @ ''@example.com'',
               s_active = (i mod 3 \<noteq> 0)\<rparr>) (py_range 1 51)"

definition starlette_filtered :: "string \<Rightarrow> starlette_user list" where
  "starlette_filtered search =
     (if search \<noteq> [] then filter (\<lambda>u. py_in (lower search) (lower (s_username u))) starlette_all_users
      else starlette_all_users)"

definition starlette_users_list :: "param \<Rightarrow> param \<Rightarrow> string option \<Rightarrow> starlette_user users_body response" where
  "starlette_users_list page_arg limit_arg search_arg =
     (case int_arg page_arg 1 of Inl e \<Rightarrow> Unhandled e | Inr page \<Rightarrow>
     (case int_arg limit_arg 10 of Inl e \<Rightarrow> Unhandled e | Inr limit \<Rightarrow>
      let search = str_arg search_arg [] in
      if page < 1 then ErrorJson 400 ''Page must be >= 1''
      else if limit < 1 \<or> limit > 100 then ErrorJson 400 ''Limit must be between 1-100''
      else
        let all_users = starlette_filtered search;
            start = (page - 1) * limit;
            end = start + limit
        in Json 200 \<lparr>b_users = py_slice all_users start end,
                      b_pagination = \<lparr>pg_page = page, pg_limit = limit,
                                     pg_total = int (length all_users),
                                     pg_has_next = (end < int (length all_users)),
                                     pg_has_previous = (page > 1)\<rparr>\<rparr>))"

subsection \<open>Tornado: \<^verbatim>\<open>UsersHandler\<close>\<close>

record tornado_profile =
  full_name :: string
  location :: string

record tornado_user =
  t_id :: int
  t_username :: string
  t_email :: string
  t_active :: bool
  t_posts_count :: int
  t_profile :: tornado_profile

definition tornado_all_users :: "tornado_user list" where
  "tornado_all_users =
     map (\<lambda>i. \<lparr>t_id = i, t_username = ''user_'' @ format_03d i,
               t_email = ''user_'' @ format_03d i @ ''@example.com'',
               t_active = (i mod 4 \<noteq> 0),
               t_posts_count = max 0 (50 - i),
               t_profile = \<lparr>full_name = ''User Number '' @ format_03d i,
                             location = [''New York'', ''London'', ''Tokyo'', ''Sydney''] ! nat (i mod 4)\<rparr>\<rparr>)
         (py_range 1 101)"

definition tornado_filtered :: "string \<Rightarrow> bool \<Rightarrow> tornado_user list" where
  "tornado_filtered search active_only =
     (let filtered_users = tornado_all_users;
          filtered_users = (if active_only then filter t_active filtered_users else filtered_users);
          filtered_users =
            (if search \<noteq> [] then
               filter (\<lambda>u. py_in (lower search) (lower (t_username u)) \<or>
                            py_in (lower search) (lower (t_email u))) filtered_users
             else filtered_users)
      in filtered_users)"

definition get_users_from_database :: "int \<Rightarrow> int \<Rightarrow> string \<Rightarrow> bool \<Rightarrow> tornado_user users_body" where
  "get_users_from_database page limit search active_only =
     (let filtered_users = tornado_filtered search active_only;
          start = (page - 1) * limit;
          end = start + limit;
          paginated_users = py_slice filtered_users start end
      in \<lparr>b_users = paginated_users,
          b_pagination = \<lparr>pg_page = page, pg_limit = limit,
                         pg_total = int (length filtered_users),
                         pg_has_next = (end < int (length filtered_users)),
                         pg_has_previous = (page > 1)\<rparr>\<rparr>)"

text \<open>\<^verbatim>\<open>UsersHandler.get\<close>: the conversions are inside \<^verbatim>\<open>try\<close>, a \<^verbatim>\<open>ValueError\<close>
  is answered with 400.\<close>

definition tornado_users_get ::
  "param \<Rightarrow> param \<Rightarrow> string option \<Rightarrow> string option \<Rightarrow> tornado_user users_body response" where
  "tornado_users_get page_arg limit_arg search_arg active_arg =
     (case int_arg page_arg 1 of Inl e \<Rightarrow> ErrorJson 400 ''Invalid parameter format'' | Inr page \<Rightarrow>
     (case int_arg limit_arg 10 of Inl e \<Rightarrow> ErrorJson 400 ''Invalid parameter format'' | Inr limit \<Rightarrow>
      let search = get_argument search_arg [];
          active_only = (lower (get_argument active_arg ''false'') = ''true'')
      in if page < 1 then ErrorJson 400 ''Page must be >= 1''
         else if limit < 1 \<or> limit > 100 then ErrorJson 400 ''Limit must be between 1-100''
         else Json 200 (get_users_from_database page limit search active_only)))"

section \<open>JSON values\<close>

text \<open>
  Bodies whose shape no property below depends on are kept as JSON values; a
  dictionary is its list of items.
\<close>

datatype json =
    JNull
  | JBool bool
  | JInt int
  | JStr string
  | JList "json list"
  | JDict "(string \<times> json) list"

text \<open>\<^verbatim>\<open>d.get(key, default)\<close> on a dictionary.\<close>

definition dict_get :: "(string \<times> json) list \<Rightarrow> string \<Rightarrow> json \<Rightarrow> json" where
  "dict_get d k dflt = (case map_of d k of None \<Rightarrow> dflt | Some v \<Rightarrow> v)"

text \<open>
  A handler that calls \<^verbatim>\<open>json.loads\<close> on a text takes the outcome of the call beside
  the text: the value, or \<^verbatim>\<open>JSONDecodeError\<close>, or another exception that \<^verbatim>\<open>json.loads\<close>
  raises (\<^verbatim>\<open>RecursionError\<close> on a deeply nested text), which an
  \<^verbatim>\<open>except json.JSONDecodeError\<close> does not catch.
\<close>

datatype loaded = Parsed json | JSONDecodeError | Raises py_exception

section \<open>Bearer authentication\<close>

text \<open>The value of the \<^verbatim>\<open>Authorization\<close> header of a request that presents the
  bearer token \<open>token\<close>.\<close>

definition bearer :: "string \<Rightarrow> string option" where
  "bearer token = Some (''Bearer '' @ token)"

subsection \<open>Flask: \<^verbatim>\<open>require_auth\<close>, \<^verbatim>\<open>require_admin\<close>\<close>

record flask_current_user =
  fl_token :: string
  fl_username :: string
  fl_is_admin :: bool

text \<open>The decorators take the wrapped view and the value of the
  \<^verbatim>\<open>Authorization\<close> header (\<open>None\<close> when the header is absent).\<close>

definition flask_require_auth ::
  "(flask_current_user \<Rightarrow> 'a response) \<Rightarrow> string option \<Rightarrow> 'a response" where
  "flask_require_auth f authorization =
     (let auth_header = str_arg authorization [] in
      if \<not> startswith auth_header ''Bearer '' then ErrorJson 401 ''Authentication required''
      else
        let token = drop 7 auth_header;
            valid_tokens = [''valid-token'', ''admin-token'', ''user-token'']
        in if token \<notin> set valid_tokens then ErrorJson 401 ''Invalid token''
           else f \<lparr>fl_token = token,
                   fl_username = (if token = ''admin-token'' then ''admin'' else ''user''),
                   fl_is_admin = (token = ''admin-token'')\<rparr>)"

definition rate_limit :: "'f \<Rightarrow> 'f" where
  "rate_limit f = f"

definition protected_resource :: "flask_current_user \<Rightarrow> json response" where
  "protected_resource user =
     Json 200 (JDict [(''message'', JStr ''This is a protected resource''),
                      (''user'', JStr (fl_username user)),
                      (''is_admin'', JBool (fl_is_admin user))])"

definition flask_protected :: "string option \<Rightarrow> json response" where
  "flask_protected authorization = flask_require_auth (rate_limit protected_resource) authorization"






subsection \<open>FastAPI: \<^verbatim>\<open>get_current_user\<close>, \<^verbatim>\<open>get_admin_user\<close>\<close>

record fastapi_user =
  fa_id :: int
  fa_username :: string
  fa_email :: string
  fa_is_active :: bool
  fa_is_admin :: bool

datatype http_exception = HTTPException nat string

definition raise_http :: "http_exception \<Rightarrow> 'a response" where
  "raise_http e = (case e of HTTPException c d \<Rightarrow> ErrorJson c d)"

definition user_map :: "(string \<times> fastapi_user) list" where
  "user_map =
     [(''valid-token'', \<lparr>fa_id = 1, fa_username = ''johndoe'', fa_email = ''john@example.com'',
                          fa_is_active = True, fa_is_admin = False\<rparr>),
      (''admin-token'', \<lparr>fa_id = 2, fa_username = ''admin'', fa_email = ''admin@example.com'',
                          fa_is_active = True, fa_is_admin = True\<rparr>),
      (''user-token'', \<lparr>fa_id = 3, fa_username = ''alice'', fa_email = ''alice@example.com'',
                         fa_is_active = True, fa_is_admin = False\<rparr>)]"

text \<open>The dependency receives the credentials of the bearer scheme: the token.\<close>

definition fastapi_get_current_user :: "string \<Rightarrow> http_exception + fastapi_user" where
  "fastapi_get_current_user token =
     (case map_of user_map token of
        Some u \<Rightarrow> Inr u
      | None \<Rightarrow> Inl (HTTPException 401 ''Invalid authentication credentials''))"


subsection \<open>Starlette: \<^verbatim>\<open>TokenAuthBackend\<close>\<close>

record starlette_auth =
  sa_scopes :: "string list"
  sa_username :: string

definition token_users :: "(string \<times> starlette_auth) list" where
  "token_users =
     [(''admin-token'', \<lparr>sa_scopes = [''authenticated'', ''admin''], sa_username = ''admin''\<rparr>),
      (''user-token'', \<lparr>sa_scopes = [''authenticated''], sa_username = ''user''\<rparr>),
      (''valid-token'', \<lparr>sa_scopes = [''authenticated''], sa_username = ''guest''\<rparr>)]"

text \<open>\<open>None\<close> leaves the request unauthenticated
  (\<^verbatim>\<open>request.user.is_authenticated\<close> is false and the scopes are empty).\<close>

definition authenticate :: "string option \<Rightarrow> starlette_auth option" where
  "authenticate authorization =
     (case authorization of
        None \<Rightarrow> None
      | Some auth \<Rightarrow>
          if \<not> startswith auth ''Bearer '' then None
          else map_of token_users (drop 7 auth))"

definition protected_endpoint :: "string option \<Rightarrow> json response" where
  "protected_endpoint authorization =
     (case authenticate authorization of
        None \<Rightarrow> ErrorJson 401 ''Authentication required''
      | Some a \<Rightarrow>
          Json 200 (JDict [(''message'', JStr ''Welcome to the protected area!''),
                           (''user'', JStr (sa_username a)),
                           (''permissions'', JList (map JStr (sa_scopes a))),
                           (''sensitive_data'',
                              JDict [(''account_balance'', JStr ''$1,234.56''),
                                     (''personal_notes'', JStr ''This is private content'')])]))"


subsection \<open>Tornado: \<^verbatim>\<open>BaseHandler.get_current_user\<close> and the decorators\<close>

record tornado_account =
  ta_id :: int
  ta_username :: string
  ta_email :: string
  ta_is_admin :: bool
  ta_permissions :: "string list"

definition tornado_token_users :: "(string \<times> tornado_account) list" where
  "tornado_token_users =
     [(''valid-token'', \<lparr>ta_id = 1, ta_username = ''user'', ta_email = ''user@example.com'',
                          ta_is_admin = False, ta_permissions = [''read'', ''write'']\<rparr>),
      (''admin-token'', \<lparr>ta_id = 2, ta_username = ''admin'', ta_email = ''admin@example.com'',
                          ta_is_admin = True,
                          ta_permissions = [''read'', ''write'', ''admin'', ''delete'']\<rparr>)]"

definition tornado_get_current_user :: "string option \<Rightarrow> tornado_account option" where
  "tornado_get_current_user authorization =
     (let auth_header = str_arg authorization [] in
      if startswith auth_header ''Bearer '' then map_of tornado_token_users (drop 7 auth_header)
      else None)"

text \<open>\<^verbatim>\<open>write_error_json(message, status_code)\<close> is \<open>ErrorJson status_code message\<close>;
  \<^verbatim>\<open>write_json(data, status_code)\<close> is \<open>Json status_code data\<close>.\<close>

definition authenticated_async ::
  "(tornado_account \<Rightarrow> 'a response) \<Rightarrow> string option \<Rightarrow> 'a response" where
  "authenticated_async method authorization =
     (case tornado_get_current_user authorization of
        None \<Rightarrow> ErrorJson 401 ''Authentication required''
      | Some user \<Rightarrow> method user)"



definition tornado_protected_get :: "string option \<Rightarrow> json response" where
  "tornado_protected_get authorization =
     authenticated_async
       (\<lambda>user. Json 200 (JDict [(''message'', JStr ''This is protected content''),
                                 (''user'', JStr (ta_username user)),
                                 (''permissions'', JList (map JStr (ta_permissions user)))]))
       authorization"


section \<open>User detail\<close>

subsection \<open>FastAPI: \<^verbatim>\<open>get_user\<close>\<close>

definition fastapi_user_data :: "(int \<times> fastapi_user) list" where
  "fastapi_user_data =
     [(1, \<lparr>fa_id = 1, fa_username = ''alice'', fa_email = ''alice@example.com'',
            fa_is_active = True, fa_is_admin = False\<rparr>),
      (2, \<lparr>fa_id = 2, fa_username = ''bob'', fa_email = ''bob@example.com'',
            fa_is_active = False, fa_is_admin = False\<rparr>),
      (3, \<lparr>fa_id = 3, fa_username = ''charlie'', fa_email = ''charlie@example.com'',
            fa_is_active = True, fa_is_admin = False\<rparr>)]"

text \<open>The path parameter is declared \<^verbatim>\<open>Path(..., gt=0)\<close>.\<close>

definition fastapi_get_user :: "int \<Rightarrow> fastapi_user response" where
  "fastapi_get_user user_id =
     (if \<not> 0 < user_id then RequestValidationError
      else case map_of fastapi_user_data user_id of
             None \<Rightarrow> ErrorJson 404 (''User with ID '' @ py_str user_id @ '' not found'')
           | Some u \<Rightarrow> Json 200 u)"

subsection \<open>Starlette: \<^verbatim>\<open>user_detail\<close>\<close>

record starlette_profile =
  sp_full_name :: string
  sp_bio :: string
  sp_location :: string

record starlette_stats =
  ss_posts :: int
  ss_followers :: int
  ss_following :: int

record starlette_detail =
  sd_id :: int
  sd_username :: string
  sd_email :: string
  sd_profile :: starlette_profile
  sd_stats :: starlette_stats
  sd_active :: bool

text \<open>The handler, as a function of the integer that \<^verbatim>\<open>int\<close> returns.\<close>

definition user_detail :: "int \<Rightarrow> starlette_detail response" where
  "user_detail user_id =
     (if user_id \<le> 0 then ErrorJson 400 ''Invalid user ID''
      else if user_id > 50 then ErrorJson 404 ''User not found''
      else Json 200
        \<lparr>sd_id = user_id,
         sd_username = ''user_'' @ py_str user_id,
         sd_email = ''user_'' @ py_str user_id @ ''@example.com'',
         sd_profile = \<lparr>sp_full_name = ''User Number '' @ py_str user_id,
                        sp_bio = ''I am user number '' @ py_str user_id,
                        sp_location = ''Internet''\<rparr>,
         sd_stats = \<lparr>ss_posts = user_id * 2, ss_followers = user_id * 5,
                      ss_following = user_id * 3\<rparr>,
         sd_active = (user_id mod 3 \<noteq> 0)\<rparr>)"

text \<open>
  The route is \<^verbatim>\<open>/users/{user_id:int}\<close>: the convertor matches a run of digits
  (\<^verbatim>\<open>[0-9]+\<close>). For any other segment, such as \<^verbatim>\<open>-1\<close>, no route matches and the
  application's handler for 404, \<^verbatim>\<open>not_found\<close>, answers.
\<close>

definition starlette_user_detail_route :: "string \<Rightarrow> starlette_detail response" where
  "starlette_user_detail_route segment =
     (if all_digits segment then user_detail (int (digits_value segment))
      else ErrorJson 404 ''Endpoint not found'')"

subsection \<open>Tornado: \<^verbatim>\<open>UserDetailHandler\<close>\<close>

record tornado_detail_profile =
  dp_full_name :: string
  dp_bio :: string
  dp_location :: string

record tornado_detail_stats =
  ds_posts_count :: int
  ds_followers_count :: int
  ds_following_count :: int

record tornado_admin_info =
  ai_ip_history :: "string list"
  ai_login_attempts :: int
  ai_subscription_type :: string
  ai_admin_notes :: string

record tornado_detail =
  td_id :: int
  td_username :: string
  td_email :: string
  td_active :: bool
  td_profile :: tornado_detail_profile
  td_stats :: tornado_detail_stats
  td_admin_info :: "tornado_admin_info option"

definition get_user_details :: "int \<Rightarrow> tornado_detail option" where
  "get_user_details user_id =
     (if user_id > 100 then None
      else Some
        \<lparr>td_id = user_id,
         td_username = ''user_'' @ format_03d user_id,
         td_email = ''user_'' @ format_03d user_id @ ''@example.com'',
         td_active = (user_id mod 4 \<noteq> 0),
         td_profile = \<lparr>dp_full_name = ''User Number '' @ format_03d user_id,
                        dp_bio = ''I am user #'' @ py_str user_id @ '' with interests in technology'',
                        dp_location = [''New York'', ''London'', ''Tokyo'', ''Sydney''] ! nat (user_id mod 4)\<rparr>,
         td_stats = \<lparr>ds_posts_count = max 0 (50 - user_id),
                      ds_followers_count = max 0 (user_id * 3),
                      ds_following_count = max 0 (user_id * 2)\<rparr>,
         td_admin_info = None\<rparr>)"

definition get_admin_user_info :: "int \<Rightarrow> tornado_admin_info" where
  "get_admin_user_info user_id =
     \<lparr>ai_ip_history = [''192.168.1.'' @ py_str (user_id mod 50 + 100)],
      ai_login_attempts = user_id mod 10,
      ai_subscription_type = [''free'', ''premium'', ''enterprise''] ! nat (user_id mod 3),
      ai_admin_notes = ''Standard user account #'' @ py_str user_id\<rparr>"

text \<open>\<^verbatim>\<open>get\<close>, as a function of the integer that \<^verbatim>\<open>int\<close> returns: it raises
  \<^verbatim>\<open>ValueError\<close> itself for \<open>user_id \<le> 0\<close> and answers it with 400.\<close>

definition tornado_user_detail_get :: "int \<Rightarrow> string option \<Rightarrow> tornado_detail response" where
  "tornado_user_detail_get user_id authorization =
     (if user_id \<le> 0 then ErrorJson 400 ''Invalid user ID format''
      else case get_user_details user_id of
             None \<Rightarrow> ErrorJson 404 ''User not found''
           | Some user_data \<Rightarrow>
               (case tornado_get_current_user authorization of
                  None \<Rightarrow> Json 200 user_data
                | Some current_user \<Rightarrow>
                    if ta_is_admin current_user
                    then Json 200 (user_data\<lparr>td_admin_info := Some (get_admin_user_info user_id)\<rparr>)
                    else Json 200 user_data))"

text \<open>
  The route is \<^verbatim>\<open>/users/([0-9]+)/?\<close>: the handler is reached with a run of digits. For
  any other segment no route matches and Tornado answers 404.
\<close>

definition tornado_user_detail_route :: "string \<Rightarrow> string option \<Rightarrow> tornado_detail response" where
  "tornado_user_detail_route segment authorization =
     (if all_digits segment then tornado_user_detail_get (int (digits_value segment)) authorization
      else FrameworkError 404)"





section \<open>FastAPI endpoints behind the dependencies\<close>












section \<open>File upload\<close>

text \<open>An uploaded file; its content is the list of its bytes.\<close>

record upload =
  up_filename :: string
  up_content_type :: string
  up_content :: string

text \<open>The file is declared \<^verbatim>\<open>File(...)\<close>: a request without it fails validation.\<close>

definition upload_file :: "string \<Rightarrow> upload option \<Rightarrow> json response" where
  "upload_file token file_arg =
     (case fastapi_get_current_user token of
        Inl e \<Rightarrow> raise_http e
      | Inr current_user \<Rightarrow>
          (case file_arg of
             None \<Rightarrow> RequestValidationError
           | Some file \<Rightarrow>
               let max_size = 10 * 1024 * 1024;
                   file_content = up_content file
               in if length file_content > max_size then ErrorJson 413 ''File too large''
                  else Json 200 (JDict [(''filename'', JStr (up_filename file)),
                                        (''content_type'', JStr (up_content_type file)),
                                        (''size'', JInt (int (length file_content))),
                                        (''uploaded_by'', JStr (fa_username current_user))])))"

text \<open>A form item of the Starlette handler: a plain field, or a file (an object
  with \<^verbatim>\<open>filename\<close> and \<^verbatim>\<open>file\<close>).\<close>

datatype form_value = FormField string | FormFile upload

text \<open>
  The form is the list of its parts, in the order of the request.
  \<^verbatim>\<open>form.items()\<close> is the view of a dictionary built from the parts: one item for each
  field name, at the place of the first part of that name and with the value of the
  last one.
\<close>

fun dict_set :: "string \<Rightarrow> 'v \<Rightarrow> (string \<times> 'v) list \<Rightarrow> (string \<times> 'v) list" where
  "dict_set k v [] = [(k, v)]"
| "dict_set k v ((k', v') # rest) =
     (if k' = k then (k, v) # rest else (k', v') # dict_set k v rest)"

definition form_items :: "(string \<times> 'v) list \<Rightarrow> (string \<times> 'v) list" where
  "form_items parts = foldl (\<lambda>d (k, v). dict_set k v d) [] parts"

text \<open>The loop of \<^verbatim>\<open>upload_handler\<close> over \<^verbatim>\<open>form.items()\<close>, with the entries
  collected so far and the running \<^verbatim>\<open>total_size\<close>; \<open>Inl\<close> is the early return with
  413 and its message.\<close>

fun upload_loop ::
  "(string \<times> form_value) list \<Rightarrow> json list \<Rightarrow> nat \<Rightarrow> string + (json list \<times> nat)" where
  "upload_loop [] uploaded_files total_size = Inr (uploaded_files, total_size)"
| "upload_loop ((field_name, FormField v) # items) uploaded_files total_size =
     upload_loop items uploaded_files total_size"
| "upload_loop ((field_name, FormFile file_data) # items) uploaded_files total_size =
     (let content = up_content file_data;
          file_size = length content;
          total_size = total_size + file_size;
          max_size = 10 * 1024 * 1024
      in if file_size > max_size then Inl (''File '' @ up_filename file_data @ '' too large'')
         else upload_loop items
                (uploaded_files @
                   [JDict [(''field_name'', JStr field_name),
                           (''filename'', JStr (up_filename file_data)),
                           (''content_type'', JStr (up_content_type file_data)),
                           (''size'', JInt (int file_size))]])
                total_size)"

definition upload_handler :: "string option \<Rightarrow> (string \<times> form_value) list \<Rightarrow> json response" where
  "upload_handler authorization form =
     (case authenticate authorization of
        None \<Rightarrow> ErrorJson 401 ''Authentication required for file uploads''
      | Some a \<Rightarrow>
          (case upload_loop (form_items form) [] 0 of
             Inl msg \<Rightarrow> ErrorJson 413 msg
           | Inr (uploaded_files, total_size) \<Rightarrow>
               if uploaded_files = [] then ErrorJson 400 ''No files were uploaded''
               else Json 201 (JDict [(''message'', JStr (''Processed '' @ py_str (int (length uploaded_files)) @ '' files'')),
                                     (''uploaded_by'', JStr (sa_username a)),
                                     (''files'', JList uploaded_files),
                                     (''total_size'', JInt (int total_size))])))"

section \<open>Search\<close>

definition quote :: "string \<Rightarrow> string" where
  "quote s = [CHR 0x27] @ s @ [CHR 0x27]"

fun join :: "string \<Rightarrow> string list \<Rightarrow> string" where
  "join sep [] = []"
| "join sep [x] = x"
| "join sep (x # y # ys) = x @ sep @ join sep (y # ys)"

text \<open>The rendering of a list of plain words inside an f-string.\<close>

definition repr_list :: "string list \<Rightarrow> string" where
  "repr_list xs = ''['' @ join '', '' (map quote xs) @ '']''"

subsection \<open>Flask: \<^verbatim>\<open>search\<close>\<close>

definition flask_search ::
  "string option \<Rightarrow> string option \<Rightarrow> param \<Rightarrow> param \<Rightarrow> json response" where
  "flask_search q_arg category_arg page_arg limit_arg =
     (let query = str_arg q_arg [];
          category = str_arg category_arg ''all'';
          page = flask_arg_int page_arg 1;
          limit = flask_arg_int limit_arg 10
      in if query = [] then ErrorJson 400 (''Search query '' @ quote ''q'' @ '' is required'')
         else
           let limit = (if limit > 100 then 100 else limit);
               results =
                 map (\<lambda>i. JDict [(''id'', JInt i),
                                  (''title'', JStr (''Result '' @ py_str i @ '' for '' @ quote query)),
                                  (''category'', JStr category),
                                  (''url'', JStr (''/result/'' @ py_str i))])
                     (py_range ((page - 1) * limit + 1) (min (page * limit + 1) 26))
           in Json 200 (JDict [(''query'', JStr query), (''category'', JStr category),
                               (''page'', JInt page), (''limit'', JInt limit),
                               (''results'', JList results), (''total'', JInt 25),
                               (''has_next'', JBool (page * limit < 25))]))"

subsection \<open>FastAPI: \<^verbatim>\<open>search\<close>\<close>

text \<open>An integer query parameter declared \<^verbatim>\<open>Query(default, ge=lo, le=hi)\<close>; \<open>None\<close> when
  the request fails the declaration.\<close>

definition query_int :: "param \<Rightarrow> int \<Rightarrow> int \<Rightarrow> int option \<Rightarrow> int option" where
  "query_int p dflt lo hi =
     (case p of
        Absent \<Rightarrow> Some dflt
      | Malformed \<Rightarrow> None
      | IntVal n \<Rightarrow>
          if n < lo \<or> (case hi of None \<Rightarrow> False | Some h \<Rightarrow> h < n) then None else Some n)"

text \<open>\<^verbatim>\<open>q\<close> is declared \<^verbatim>\<open>Query(..., min_length=1, max_length=100)\<close>: required.\<close>

definition fastapi_search ::
  "string option \<Rightarrow> string option \<Rightarrow> param \<Rightarrow> param \<Rightarrow> json response" where
  "fastapi_search q_arg category_arg page_arg limit_arg =
     (case q_arg of
        None \<Rightarrow> RequestValidationError
      | Some q \<Rightarrow>
          if length q < 1 \<or> length q > 100 then RequestValidationError
          else
            (case query_int page_arg 1 1 None of
               None \<Rightarrow> RequestValidationError
             | Some page \<Rightarrow>
                 (case query_int limit_arg 10 1 (Some 100) of
                    None \<Rightarrow> RequestValidationError
                  | Some limit \<Rightarrow>
                      let category = str_arg category_arg ''all'';
                          categories = [''all'', ''users'', ''posts'', ''products'']
                      in if category \<notin> set categories
                         then ErrorJson 400 (''Invalid category. Must be one of: '' @ repr_list categories)
                         else
                           let total_results = 47;
                               results =
                                 map (\<lambda>i. JDict
                                        [(''id'', JInt i),
                                         (''title'', JStr (''Search result '' @ py_str i @ '' for '' @ quote q)),
                                         (''category'',
                                            JStr (if category \<noteq> ''all'' then category
                                                  else [''users'', ''posts'', ''products''] ! nat (i mod 3))),
                                         (''url'', JStr (''/result/'' @ py_str i)),
                                         (''snippet'', JStr (''This is a snippet of result '' @ py_str i
                                              @ '' containing the query '' @ quote q @ ''...''))])
                                     (py_range ((page - 1) * limit + 1)
                                               (min (page * limit + 1) (total_results + 1)))
                           in Json 200 (JDict [(''query'', JStr q), (''results'', JList results),
                                               (''total'', JInt total_results), (''page'', JInt page),
                                               (''limit'', JInt limit),
                                               (''has_next'', JBool (page * limit < total_results))]))))"

subsection \<open>Starlette: \<^verbatim>\<open>search_handler\<close>\<close>

text \<open>The two \<^verbatim>\<open>int\<close> conversions come before the check of the query.\<close>

definition search_handler ::
  "string option \<Rightarrow> string option \<Rightarrow> param \<Rightarrow> param \<Rightarrow> json response" where
  "search_handler q_arg category_arg page_arg limit_arg =
     (let query = str_arg q_arg [];
          category = str_arg category_arg ''all''
      in case int_arg page_arg 1 of
           Inl e \<Rightarrow> Unhandled e
         | Inr page \<Rightarrow>
             (case int_arg limit_arg 10 of
                Inl e \<Rightarrow> Unhandled e
              | Inr limit \<Rightarrow>
                  if query = [] then ErrorJson 400 (''Search query '' @ quote ''q'' @ '' is required'')
                  else
                    let valid_categories = [''all'', ''users'', ''posts'', ''files'']
                    in if category \<notin> set valid_categories
                       then ErrorJson 400 (''Invalid category. Must be one of: '' @ repr_list valid_categories)
                       else
                         let total_results = 42;
                             results =
                               map (\<lambda>i. JDict
                                      [(''id'', JInt i),
                                       (''title'', JStr (''Search result '' @ py_str i @ '' for '' @ quote query)),
                                       (''category'',
                                          JStr (if category \<noteq> ''all'' then category
                                                else [''users'', ''posts'', ''files''] ! nat (i mod 3))),
                                       (''url'', JStr (''/'' @ category @ ''/'' @ py_str i)),
                                       (''snippet'', JStr (''This is result '' @ py_str i @ '' containing ''
                                            @ quote query @ '' with relevant content...''))])
                                   (py_range ((page - 1) * limit + 1)
                                             (min (page * limit + 1) (total_results + 1)))
                         in Json 200 (JDict [(''query'', JStr query), (''category'', JStr category),
                                             (''results'', JList results),
                                             (''pagination'',
                                                JDict [(''page'', JInt page), (''limit'', JInt limit),
                                                       (''total'', JInt total_results),
                                                       (''has_next'', JBool (page * limit < total_results))]),
                                             (''search_time'', JStr ''0.045s'')])))"

subsection \<open>Tornado: \<^verbatim>\<open>SearchHandler\<close>\<close>

record tornado_result =
  tr_id :: int
  tr_title :: string
  tr_type :: string
  tr_snippet :: string
  tr_url :: string

record tornado_search =
  ts_query :: string
  ts_search_type :: string
  ts_results :: "tornado_result list"
  ts_page :: int
  ts_limit :: int
  ts_total_results :: int

definition perform_search :: "string \<Rightarrow> string \<Rightarrow> int \<Rightarrow> int \<Rightarrow> tornado_search" where
  "perform_search query search_type page limit =
     (let results =
            map (\<lambda>i. \<lparr>tr_id = i,
                      tr_title = ''Search result '' @ py_str i @ '' for '' @ quote query,
                      tr_type = (if search_type \<noteq> ''all'' then search_type
                                 else [''users'', ''posts'', ''files''] ! nat (i mod 3)),
                      tr_snippet = ''This is result '' @ py_str i @ '' containing '' @ quote query @ ''...'',
                      tr_url = ''/item/'' @ py_str i\<rparr>)
                (py_range ((page - 1) * limit + 1) (page * limit + 1))
      in \<lparr>ts_query = query, ts_search_type = search_type, ts_results = results,
          ts_page = page, ts_limit = limit, ts_total_results = 150\<rparr>)"

text \<open>The query is checked first; the conversions that follow are outside any
  \<^verbatim>\<open>try\<close>.\<close>

definition tornado_search_get ::
  "string option \<Rightarrow> string option \<Rightarrow> param \<Rightarrow> param \<Rightarrow> tornado_search response" where
  "tornado_search_get q_arg type_arg page_arg limit_arg =
     (let query = get_argument q_arg [] in
      if query = [] then ErrorJson 400 (''Search query '' @ quote ''q'' @ '' is required'')
      else
        let search_type = get_argument type_arg ''all'' in
        case int_arg page_arg 1 of
          Inl e \<Rightarrow> Unhandled e
        | Inr page \<Rightarrow>
            (case int_arg limit_arg 20 of
               Inl e \<Rightarrow> Unhandled e
             | Inr limit \<Rightarrow> Json 200 (perform_search query search_type page limit)))"

section \<open>WebSocket handlers\<close>

text \<open>
  A received text frame is the text \<open>data\<close> with the outcome \<open>ld\<close> of
  \<^verbatim>\<open>json.loads(data)\<close>. A reply is the dictionary handed to \<^verbatim>\<open>json.dumps\<close>. One pass of a
  receive loop gives the reply, or the exception that leaves the inner \<^verbatim>\<open>try\<close>.
\<close>

definition wrap_text :: "string \<Rightarrow> json" where
  "wrap_text data = JDict [(''type'', JStr ''text''), (''content'', JStr data)]"


subsection \<open>FastAPI: \<^verbatim>\<open>websocket_endpoint\<close>\<close>

definition fastapi_websocket_pass :: "string \<Rightarrow> loaded \<Rightarrow> py_exception + json" where
  "fastapi_websocket_pass data ld =
     (case ld of
        Raises e \<Rightarrow> Inl e
      | _ \<Rightarrow>
          let message = (case ld of Parsed m \<Rightarrow> m | _ \<Rightarrow> wrap_text data)
          in if (case message of JDict d \<Rightarrow> dict_get d ''type'' JNull = JStr ''ping'' | _ \<Rightarrow> False)
             then Inr (JDict [(''type'', JStr ''pong'')])
             else Inr (JDict [(''type'', JStr ''echo''), (''data'', message)]))"





subsection \<open>Starlette: \<^verbatim>\<open>websocket_endpoint\<close>, \<^verbatim>\<open>process_websocket_message\<close>\<close>

text \<open>
  The replies of \<^verbatim>\<open>process_websocket_message\<close>, by their \<^verbatim>\<open>type\<close> entry:
  \<open>EchoResponse m\<close> is \<^verbatim>\<open>{"type": "echo_response", "original": m}\<close>,
  \<open>UnknownCommand t\<close> is \<^verbatim>\<open>{"type": "unknown_command", "message": f"Unknown command: {t}", ...}\<close>
  and \<open>TextEcho m\<close> is \<^verbatim>\<open>{"type": "text_echo", "message": str(m)}\<close>.
\<close>

datatype starlette_reply =
    EchoResponse json
  | TimeResponse
  | StatsResponse
  | Pong
  | UnknownCommand json
  | TextEcho json

definition process_websocket_message :: "json \<Rightarrow> starlette_reply" where
  "process_websocket_message message =
     (case message of
        JDict d \<Rightarrow>
          let msg_type = dict_get d ''type'' (JStr ''text'') in
          if msg_type = JStr ''echo'' then EchoResponse message
          else if msg_type = JStr ''time'' then TimeResponse
          else if msg_type = JStr ''stats'' then StatsResponse
          else if msg_type = JStr ''ping'' then Pong
          else UnknownCommand msg_type
      | _ \<Rightarrow> TextEcho message)"

definition starlette_websocket_pass :: "string \<Rightarrow> loaded \<Rightarrow> py_exception + starlette_reply" where
  "starlette_websocket_pass data ld =
     (case ld of
        Raises e \<Rightarrow> Inl e
      | Parsed m \<Rightarrow> Inr (process_websocket_message m)
      | JSONDecodeError \<Rightarrow> Inr (process_websocket_message (wrap_text data)))"


subsection \<open>Tornado: \<^verbatim>\<open>AdvancedWebSocket\<close>\<close>

text \<open>
  The class attribute \<^verbatim>\<open>connections\<close> is one set shared by all handlers. The state
  holds it as the list of its elements in the order an iteration yields them, the
  connections on which \<^verbatim>\<open>write_message\<close> raises \<^verbatim>\<open>WebSocketClosedError\<close>, and the
  messages written so far, each with its receiver.
\<close>

type_synonym conn = nat

record ws_state =
  connections :: "conn list"
  closing :: "conn list"
  outbox :: "(conn \<times> json) list"

definition write_message :: "conn \<Rightarrow> json \<Rightarrow> ws_state \<Rightarrow> py_exception + ws_state" where
  "write_message c msg st =
     (if c \<in> set (closing st) then Inl WebSocketClosedError
      else Inr (st\<lparr>outbox := outbox st @ [(c, msg)]\<rparr>))"

definition discard :: "conn \<Rightarrow> ws_state \<Rightarrow> ws_state" where
  "discard c st = st\<lparr>connections := removeAll c (connections st)\<rparr>"

text \<open>
  \<^verbatim>\<open>for conn in self.connections\<close>: the iterator remembers the size of the set when it
  is created (\<open>used\<close>), and every step, the one that finds the set exhausted too,
  first compares it with the present size and raises \<^verbatim>\<open>RuntimeError\<close> ("Set changed
  size during iteration") when they differ. The \<^verbatim>\<open>try\<close> is inside the loop body, so
  this exception leaves the loop. The result is the state reached and the
  exception, if one was raised.
\<close>

fun broadcast_loop ::
  "nat \<Rightarrow> conn list \<Rightarrow> conn \<Rightarrow> json \<Rightarrow> ws_state \<Rightarrow> ws_state \<times> py_exception option" where
  "broadcast_loop used [] self broadcast_msg st =
     (if length (connections st) \<noteq> used then (st, Some RuntimeError) else (st, None))"
| "broadcast_loop used (c # rest) self broadcast_msg st =
     (if length (connections st) \<noteq> used then (st, Some RuntimeError)
      else if c \<noteq> self then
        (case write_message c broadcast_msg st of
           Inr st' \<Rightarrow> broadcast_loop used rest self broadcast_msg st'
         | Inl e \<Rightarrow> broadcast_loop used rest self broadcast_msg (discard c st))
      else broadcast_loop used rest self broadcast_msg st)"

definition self_write :: "conn \<Rightarrow> json \<Rightarrow> ws_state \<Rightarrow> ws_state \<times> py_exception option" where
  "self_write self msg st =
     (case write_message self msg st of Inr st' \<Rightarrow> (st', None) | Inl e \<Rightarrow> (st, Some e))"

definition process_message :: "conn \<Rightarrow> json \<Rightarrow> ws_state \<Rightarrow> ws_state \<times> py_exception option" where
  "process_message self data st =
     (case data of
        JDict d \<Rightarrow>
          let msg_type = dict_get d ''type'' (JStr ''echo'') in
          if msg_type = JStr ''echo''
          then self_write self (JDict [(''type'', JStr ''echo_response''), (''original'', data)]) st
          else if msg_type = JStr ''broadcast''
          then
            let content = dict_get d ''content'' (JStr []);
                broadcast_msg = JDict [(''type'', JStr ''broadcast''), (''content'', content),
                                       (''sender'', dict_get d ''sender'' (JStr ''anonymous''))]
            in broadcast_loop (length (connections st)) (connections st) self broadcast_msg st
          else if msg_type = JStr ''stats''
          then self_write self (JDict [(''type'', JStr ''stats_response''),
                                       (''active_connections'', JInt (int (length (connections st)))),
                                       (''server_uptime'', JStr ''2 days, 8 hours'')]) st
          else if msg_type = JStr ''time''
          then self_write self (JDict [(''type'', JStr ''time_response'')]) st
          else (st, None)
      | _ \<Rightarrow> (st, Some AttributeError))"

definition on_message :: "conn \<Rightarrow> string \<Rightarrow> loaded \<Rightarrow> ws_state \<Rightarrow> ws_state \<times> py_exception option" where
  "on_message self message ld st =
     (case ld of
        Raises e \<Rightarrow> (st, Some e)
      | Parsed data \<Rightarrow> process_message self data st
      | JSONDecodeError \<Rightarrow> process_message self (wrap_text message) st)"

definition on_close :: "conn \<Rightarrow> ws_state \<Rightarrow> ws_state" where
  "on_close self st = discard self st"

section \<open>Notions used to state the properties\<close>

text \<open>
  The slice of a sequence as the language reference defines it: the items with
  index \<open>k\<close> such that \<open>i \<le> k < j\<close>, where a negative \<open>i\<close> or \<open>j\<close> stands for the index
  counted from the end.
\<close>

definition slice_spec :: "'a list \<Rightarrow> int \<Rightarrow> int \<Rightarrow> 'a list" where
  "slice_spec xs i j =
     (let n = int (length xs);
          i' = (if i < 0 then i + n else i);
          j' = (if j < 0 then j + n else j)
      in map (\<lambda>k. xs ! k) (filter (\<lambda>k. i' \<le> int k \<and> int k < j') [0..<length xs]))"

text \<open>A form item that is a file larger than the cap of the upload handlers.\<close>

definition oversized :: "(string \<times> form_value) \<Rightarrow> bool" where
  "oversized item = (case snd item of FormField v \<Rightarrow> False
                     | FormFile f \<Rightarrow> length (up_content f) > 10 * 1024 * 1024)"

text \<open>A file of 11 MiB, above the cap.\<close>

definition huge_file :: upload where
  "huge_file = \<lparr>up_filename = ''big.bin'', up_content_type = ''application/octet-stream'',
                up_content = replicate (11 * 1024 * 1024) (CHR ''x'')\<rparr>"

text \<open>A file of 6 MiB: below the cap, while two of them together are above it.\<close>

definition big_file :: "string \<Rightarrow> upload" where
  "big_file name = \<lparr>up_filename = name, up_content_type = ''application/octet-stream'',
                    up_content = replicate (6 * 1024 * 1024) (CHR ''x'')\<rparr>"

section \<open>Properties\<close>

subsection \<open>Slices\<close>

lemma length_py_range: "length (py_range a b) = nat (b - a)"
  by (simp add: py_range_def)

lemma length_flask_all_users: "length flask_all_users = 100"
  by (simp add: flask_all_users_def length_py_range)

lemma filter_interval_upt:
  "filter (\<lambda>k. l \<le> k \<and> k < h) [0..<n] = [l..<min h n]"
proof (induction n)
  case 0
  show ?case by simp
next
  case (Suc n)
  show ?case
  proof (cases "n < h")
    case True
    then have m: "min h (Suc n) = Suc n" "min h n = n" by simp_all
    from Suc True show ?thesis by (simp add: m)
  next
    case False
    then have m: "min h (Suc n) = h" "min h n = h" by simp_all
    from Suc False show ?thesis by (simp add: m)
  qed
qed

lemma map_nth_upt_take_drop:
  "h \<le> length xs \<Longrightarrow> map (\<lambda>k. xs ! k) [l..<h] = take (h - l) (drop l xs)"
  by (auto simp: list_eq_iff_nth_eq)

text \<open>The slice the handlers compute is the slice of the language reference.\<close>

lemma py_slice_spec: "py_slice xs i j = slice_spec xs i j"
proof -
  let ?n = "length xs"
  let ?i = "if i < 0 then i + int ?n else i"
  let ?j = "if j < 0 then j + int ?n else j"
  have p: "(\<lambda>k. ?i \<le> int k \<and> int k < ?j) = (\<lambda>k. nat ?i \<le> k \<and> k < nat ?j)"
    by (rule ext) auto
  have lo: "adjust_index i ?n = min (nat ?i) ?n" by (auto simp: adjust_index_def)
  have hi: "adjust_index j ?n = min (nat ?j) ?n" by (auto simp: adjust_index_def)
  have "slice_spec xs i j = map (\<lambda>k. xs ! k) [nat ?i..<min (nat ?j) ?n]"
    unfolding slice_spec_def Let_def p filter_interval_upt ..
  also have "\<dots> = take (min (nat ?j) ?n - nat ?i) (drop (nat ?i) xs)"
    by (rule map_nth_upt_take_drop) simp
  also have "\<dots> = take (min (nat ?j) ?n - min (nat ?i) ?n) (drop (min (nat ?i) ?n) xs)"
    by (cases "nat ?i \<le> ?n") (simp_all add: min_def)
  finally show ?thesis
    unfolding py_slice_def Let_def lo hi by simp
qed

lemma slice_spec_take_drop:
  "0 \<le> a \<Longrightarrow> 0 \<le> k \<Longrightarrow> slice_spec xs a (a + k) = take (nat k) (drop (nat a) xs)"
  unfolding py_slice_spec [symmetric]
  by (auto simp: py_slice_def adjust_index_def Let_def nat_add_distrib)

subsection \<open>Pagination\<close>

text \<open>
  Claim C1. For integer \<^verbatim>\<open>page\<close> and \<^verbatim>\<open>limit\<close>, the user list a listing endpoint
  returns is the slice of the (filtered) full list from \<open>(page-1)*limit\<close> to
  \<open>(page-1)*limit+limit\<close>, the reported total is the length of that full list, and
  \<^verbatim>\<open>has_next\<close> says that the end of the slice is strictly below the total. The Flask
  handler accepts every pair of integers, also \<open>page \<le> 0\<close> and a negative limit; the
  Starlette and Tornado handlers accept \<open>page \<ge> 1\<close> and \<open>1 \<le> limit \<le> 100\<close>. The Tornado
  handler filters by the stripped values of \<^verbatim>\<open>search\<close> and \<^verbatim>\<open>active_only\<close>.
\<close>

theorem pagination_slice:
  "flask_get_users (IntVal page) (IntVal limit) =
     Json 200 \<lparr>f_users = slice_spec flask_all_users ((page - 1) * limit) ((page - 1) * limit + limit),
               f_page = page, f_limit = limit, f_total = 100,
               f_has_next = ((page - 1) * limit + limit < 100)\<rparr>
   \<and> (1 \<le> page \<and> 1 \<le> limit \<and> limit \<le> 100 \<longrightarrow>
        starlette_users_list (IntVal page) (IntVal limit) search_arg =
          Json 200 \<lparr>b_users = slice_spec (starlette_filtered (str_arg search_arg []))
                                ((page - 1) * limit) ((page - 1) * limit + limit),
                    b_pagination = \<lparr>pg_page = page, pg_limit = limit,
                       pg_total = int (length (starlette_filtered (str_arg search_arg []))),
                       pg_has_next = ((page - 1) * limit + limit
                                      < int (length (starlette_filtered (str_arg search_arg [])))),
                       pg_has_previous = (page > 1)\<rparr>\<rparr>
      \<and> tornado_users_get (IntVal page) (IntVal limit) search_arg active_arg =
          Json 200 (get_users_from_database page limit (get_argument search_arg [])
                      (lower (get_argument active_arg ''false'') = ''true'')))
   \<and> get_users_from_database page limit search active_only =
        \<lparr>b_users = slice_spec (tornado_filtered search active_only)
                      ((page - 1) * limit) ((page - 1) * limit + limit),
         b_pagination = \<lparr>pg_page = page, pg_limit = limit,
                       pg_total = int (length (tornado_filtered search active_only)),
                       pg_has_next = ((page - 1) * limit + limit
                                      < int (length (tornado_filtered search active_only))),
                       pg_has_previous = (page > 1)\<rparr>\<rparr>"
  by (simp add: flask_get_users_def starlette_users_list_def tornado_users_get_def
        get_users_from_database_def Let_def flask_arg_int_def int_arg_def length_flask_all_users
        py_slice_spec)

theorem pagination_slice_witness:
  "(1::int) \<le> 2 \<and> (1::int) \<le> 10 \<and> (10::int) \<le> 100
   \<and> starlette_users_list (IntVal 2) (IntVal 10) None =
          Json 200 \<lparr>b_users = slice_spec (starlette_filtered []) 10 20,
                    b_pagination = \<lparr>pg_page = 2, pg_limit = 10,
                       pg_total = int (length (starlette_filtered [])),
                       pg_has_next = (20 < int (length (starlette_filtered []))),
                       pg_has_previous = True\<rparr>\<rparr>
   \<and> map s_username (slice_spec (starlette_filtered []) 10 12) = [''user_11'', ''user_12'']
   \<and> flask_get_users (IntVal (- 1)) (IntVal 3) =
          Json 200 \<lparr>f_users = [''User_95'', ''User_96'', ''User_97''],
                    f_page = - 1, f_limit = 3, f_total = 100, f_has_next = True\<rparr>
   \<and> flask_get_users (IntVal 1) (IntVal (- 98)) =
          Json 200 \<lparr>f_users = [''User_1'', ''User_2''],
                    f_page = 1, f_limit = - 98, f_total = 100, f_has_next = True\<rparr>"
proof -
  have s: "map s_username (slice_spec (starlette_filtered []) 10 12) = [''user_11'', ''user_12'']"
    by code_simp
  have f: "slice_spec flask_all_users (- 6) (- 3) = [''User_95'', ''User_96'', ''User_97'']"
    "slice_spec flask_all_users 0 (- 98) = [''User_1'', ''User_2'']"
    by code_simp+
  show ?thesis
    using pagination_slice [where page = 2 and limit = 10 and search_arg = None
            and active_arg = None and search = "[]" and active_only = False]
          pagination_slice [where page = "- 1" and limit = 3 and search_arg = None
            and active_arg = None and search = "[]" and active_only = False]
          pagination_slice [where page = 1 and limit = "- 98" and search_arg = None
            and active_arg = None and search = "[]" and active_only = False]
    by (simp add: str_arg_def s f)
qed

subsection \<open>Out-of-range identifiers\<close>

lemma digit_char_value:
  "d < 10 \<Longrightarrow> is_digit (digit_char d) \<and> (of_char (digit_char d) :: nat) = 48 + d"
proof -
  assume "d < 10"
  then have "d = 0 \<or> d = 1 \<or> d = 2 \<or> d = 3 \<or> d = 4 \<or> d = 5 \<or> d = 6 \<or> d = 7
    \<or> d = 8 \<or> d = 9" by presburger
  then show ?thesis
    by (elim disjE) (simp_all add: digit_char_def is_digit_def)
qed

lemma str_nat_digits:
  "all_digits (str_nat n) \<and> digits_value (str_nat n) = n"
proof (induction n rule: str_nat.induct)
  case (1 n)
  show ?case
  proof (cases "n < 10")
    case True
    with digit_char_value [of n] show ?thesis
      by (subst (1 2) str_nat.simps) (simp add: all_digits_def digits_value_def)
  next
    case False
    with 1 have ih: "all_digits (str_nat (n div 10))" "digits_value (str_nat (n div 10)) = n div 10"
      by simp_all
    have d: "is_digit (digit_char (n mod 10))" "(of_char (digit_char (n mod 10)) :: nat) = 48 + n mod 10"
      using digit_char_value [of "n mod 10"] by simp_all
    from False ih d show ?thesis
      by (subst (1 2) str_nat.simps) (simp add: all_digits_def digits_value_def)
  qed
qed

text \<open>The decimal rendering of an identifier as the path segment of a request: a run
  of digits exactly when the identifier is not negative.\<close>

lemma route_segment_nonneg:
  "0 \<le> i \<Longrightarrow> all_digits (py_str i) \<and> int (digits_value (py_str i)) = i"
  using str_nat_digits [of "nat i"] by (simp add: py_str_def)

lemma route_segment_negative: "i < 0 \<Longrightarrow> \<not> all_digits (py_str i)"
  by (simp add: py_str_def all_digits_def is_digit_def)

text \<open>
  The claim that a non-positive identifier is answered with 404 fails at the
  identifier 0: Starlette's \<^verbatim>\<open>user_detail\<close> and Tornado's \<^verbatim>\<open>UserDetailHandler.get\<close>
  answer it with 400, and FastAPI rejects it by the declaration \<^verbatim>\<open>gt=0\<close>.
\<close>

theorem user_detail_zero_counterexample:
  "status (starlette_user_detail_route ''0'') = 400
   \<and> status (starlette_user_detail_route ''0'') \<noteq> 404
   \<and> status (tornado_user_detail_route ''0'' None) = 400
   \<and> status (fastapi_get_user 0) = 422"
  by (simp add: starlette_user_detail_route_def tornado_user_detail_route_def all_digits_def
        is_digit_def digits_value_def user_detail_def tornado_user_detail_get_def fastapi_get_user_def)

text \<open>
  Claim C2, as amended. An identifier above the synthesized range (above 3 for
  FastAPI, above 50 for Starlette, above 100 for Tornado) is answered with 404. So
  is a negative identifier by Starlette and Tornado: their routes match digits
  only, and the router answers. The identifier 0, written with any number of
  zeros, reaches the Starlette and the Tornado handler and is answered with 400. A
  non-positive identifier fails the request validation of the FastAPI handler.
\<close>

theorem user_detail_out_of_range:
  "(3 < user_id \<longrightarrow> status (fastapi_get_user user_id) = 404)
   \<and> (50 < user_id \<longrightarrow>
        status (user_detail user_id) = 404
      \<and> status (starlette_user_detail_route (py_str user_id)) = 404)
   \<and> (100 < user_id \<longrightarrow>
        status (tornado_user_detail_get user_id authorization) = 404
      \<and> status (tornado_user_detail_route (py_str user_id) authorization) = 404)
   \<and> (user_id < 0 \<longrightarrow>
        status (starlette_user_detail_route (py_str user_id)) = 404
      \<and> status (tornado_user_detail_route (py_str user_id) authorization) = 404)
   \<and> (all_digits segment \<and> digits_value segment = 0 \<longrightarrow>
        status (starlette_user_detail_route segment) = 400
      \<and> status (tornado_user_detail_route segment authorization) = 400)
   \<and> (user_id \<le> 0 \<longrightarrow> fastapi_get_user user_id = RequestValidationError)"
proof -
  have a: "status (fastapi_get_user user_id) = 404" if "3 < user_id"
    using that by (simp add: fastapi_get_user_def fastapi_user_data_def)
  have b: "status (user_detail user_id) = 404
      \<and> status (starlette_user_detail_route (py_str user_id)) = 404" if "50 < user_id"
    using that route_segment_nonneg [of user_id]
    by (simp add: starlette_user_detail_route_def user_detail_def)
  have c: "status (tornado_user_detail_get user_id authorization) = 404
      \<and> status (tornado_user_detail_route (py_str user_id) authorization) = 404" if "100 < user_id"
    using that route_segment_nonneg [of user_id]
    by (simp add: tornado_user_detail_route_def tornado_user_detail_get_def get_user_details_def)
  have d: "status (starlette_user_detail_route (py_str user_id)) = 404
      \<and> status (tornado_user_detail_route (py_str user_id) authorization) = 404" if "user_id < 0"
    using route_segment_negative [OF that]
    by (simp add: starlette_user_detail_route_def tornado_user_detail_route_def)
  have e: "status (starlette_user_detail_route segment) = 400
      \<and> status (tornado_user_detail_route segment authorization) = 400"
    if "all_digits segment \<and> digits_value segment = 0"
    using that
    by (simp add: starlette_user_detail_route_def tornado_user_detail_route_def user_detail_def
          tornado_user_detail_get_def)
  have f: "fastapi_get_user user_id = RequestValidationError" if "user_id \<le> 0"
    using that by (simp add: fastapi_get_user_def)
  from a b c d e f show ?thesis by blast
qed

theorem user_detail_out_of_range_witness:
  "(3::int) < 101 \<and> (50::int) < 101 \<and> (100::int) < 101 \<and> (-1::int) < 0 \<and> (-1::int) \<le> 0
   \<and> all_digits ''00'' \<and> digits_value ''00'' = 0
   \<and> py_str 101 = ''101'' \<and> py_str (-1) = ''-1''
   \<and> status (fastapi_get_user 101) = 404
   \<and> status (starlette_user_detail_route ''101'') = 404
   \<and> status (tornado_user_detail_route ''101'' (bearer ''admin-token'')) = 404
   \<and> status (starlette_user_detail_route ''-1'') = 404
   \<and> status (tornado_user_detail_route ''-1'' (bearer ''admin-token'')) = 404
   \<and> status (starlette_user_detail_route ''00'') = 400
   \<and> status (tornado_user_detail_route ''00'' (bearer ''admin-token'')) = 400
   \<and> fastapi_get_user (-1) = RequestValidationError"
proof -
  have e: "py_str 101 = ''101''" "py_str (-1) = ''-1''" by code_simp+
  have z: "all_digits ''00''" "digits_value ''00'' = 0"
    by (simp_all add: all_digits_def is_digit_def digits_value_def)
  show ?thesis
    using user_detail_out_of_range [of 101 "bearer ''admin-token''" "''00''"]
          user_detail_out_of_range [of "-1" "bearer ''admin-token''" "''00''"]
    by (simp add: e z)
qed

subsection \<open>Missing search query\<close>

text \<open>
  The claim that every search handler answers a missing or empty \<^verbatim>\<open>q\<close> with 400
  fails for FastAPI: \<^verbatim>\<open>q\<close> is declared required with \<^verbatim>\<open>min_length=1\<close>, the request
  fails validation (422) and the handler's own 400, for an invalid category, is
  not reached.
\<close>

theorem search_fastapi_counterexample:
  "status (fastapi_search None None Absent Absent) = 422
   \<and> status (fastapi_search (Some []) None Absent Absent) = 422
   \<and> status (fastapi_search None None Absent Absent) \<noteq> 400"
  by (simp add: fastapi_search_def)

text \<open>
  Claim C3, as amended. When \<^verbatim>\<open>q\<close> is absent or empty, the Flask and the Tornado
  search handlers answer 400 whatever the other parameters are; the Starlette
  handler answers 400 when \<^verbatim>\<open>page\<close> and \<^verbatim>\<open>limit\<close> are absent or integers; the FastAPI
  handler is not run, the request fails the validation of its declared parameters.
\<close>

theorem search_missing_query:
  "q_arg = None \<or> q_arg = Some [] \<Longrightarrow>
     status (flask_search q_arg category_arg page_arg limit_arg) = 400
   \<and> status (tornado_search_get q_arg type_arg page_arg limit_arg) = 400
   \<and> (page_arg \<noteq> Malformed \<and> limit_arg \<noteq> Malformed \<longrightarrow>
        status (search_handler q_arg category_arg page_arg limit_arg) = 400)
   \<and> fastapi_search q_arg category_arg page_arg limit_arg = RequestValidationError"
  by (auto simp: flask_search_def tornado_search_get_def search_handler_def fastapi_search_def
        str_arg_def int_arg_def Let_def get_argument_def py_strip_def remove_control_chars_def
        split: param.splits)

theorem search_missing_query_witness:
  "(Some [] = (None :: string option) \<or> Some [] = Some ([] :: string))
   \<and> IntVal 2 \<noteq> Malformed \<and> Absent \<noteq> Malformed
   \<and> status (flask_search (Some []) None (IntVal 2) Absent) = 400
   \<and> status (tornado_search_get (Some []) None (IntVal 2) Absent) = 400
   \<and> status (search_handler (Some []) None (IntVal 2) Absent) = 400
   \<and> fastapi_search (Some []) None (IntVal 2) Absent = RequestValidationError"
  using search_missing_query [of "Some []" None "IntVal 2" Absent None]
  by simp

subsection \<open>Synthesized user records\<close>

text \<open>
  The claim that the Tornado handler names user \<open>i\<close> \<^verbatim>\<open>user_\<close> followed by the decimal
  rendering of \<open>i\<close> fails at \<open>i = 7\<close>: \<^verbatim>\<open>get_user_details\<close> formats the index with
  \<^verbatim>\<open>{user_id:03d}\<close>.
\<close>

theorem username_padding_counterexample:
  "map_option td_username (body (tornado_user_detail_get 7 None)) = Some ''user_007''
   \<and> ''user_'' @ py_str 7 = ''user_7''
   \<and> map_option td_username (body (tornado_user_detail_get 7 None)) \<noteq> Some (''user_'' @ py_str 7)"
  by code_simp

lemma format_03d_nonneg:
  "0 \<le> i \<Longrightarrow> format_03d i = replicate (3 - length (py_str i)) CHR ''0'' @ py_str i"
  by (simp add: format_03d_def py_str_def Let_def)

text \<open>
  Claim C8, as amended. For an in-range index \<open>i\<close> the record a user-detail endpoint
  returns has \<^verbatim>\<open>id\<close> equal to \<open>i\<close>; its \<^verbatim>\<open>username\<close> is \<^verbatim>\<open>user_\<close> followed by the decimal
  rendering of \<open>i\<close> in the Starlette handler, and \<^verbatim>\<open>user_\<close> followed by that rendering
  padded with zeros on the left to three digits in the Tornado handler.
\<close>

theorem user_detail_synthesized:
  "(1 \<le> i \<and> i \<le> 50 \<longrightarrow>
      map_option sd_id (body (user_detail i)) = Some i
    \<and> map_option sd_username (body (user_detail i)) = Some (''user_'' @ py_str i))
   \<and> (1 \<le> i \<and> i \<le> 100 \<longrightarrow>
      map_option td_id (body (tornado_user_detail_get i authorization)) = Some i
    \<and> map_option td_username (body (tornado_user_detail_get i authorization))
        = Some (''user_'' @ replicate (3 - length (py_str i)) CHR ''0'' @ py_str i))"
  by (auto simp: user_detail_def tornado_user_detail_get_def get_user_details_def format_03d_nonneg
        split: option.splits)

theorem user_detail_synthesized_witness:
  "(1::int) \<le> 7 \<and> (7::int) \<le> 50 \<and> (7::int) \<le> 100
   \<and> map_option sd_id (body (user_detail 7)) = Some 7
   \<and> map_option sd_username (body (user_detail 7)) = Some ''user_7''
   \<and> map_option td_id (body (tornado_user_detail_get 7 None)) = Some 7
   \<and> map_option td_username (body (tornado_user_detail_get 7 None)) = Some ''user_007''"
proof -
  have e: "py_str 7 = ''7''" by code_simp
  have r: "replicate 2 CHR ''0'' = ''00''" by (simp add: numeral_2_eq_2)
  show ?thesis
    using user_detail_synthesized [of 7 None] by (simp add: e r)
qed

subsection \<open>Tornado search pages\<close>



subsection \<open>Bearer tokens\<close>

lemma bearer_header:
  "startswith (str_arg (bearer token) []) ''Bearer ''"
  "drop 7 (str_arg (bearer token) []) = token"
  by (simp_all add: startswith_def bearer_def str_arg_def)












lemma token_tables:
  "(status (flask_protected (bearer token)) = 200)
     = (token \<in> set [''valid-token'', ''admin-token'', ''user-token''])"
  "(\<exists>u. fastapi_get_current_user token = Inr u)
     = (token \<in> set [''valid-token'', ''admin-token'', ''user-token''])"
  "(authenticate (bearer token) \<noteq> None)
     = (token \<in> set [''valid-token'', ''admin-token'', ''user-token''])"
  "(tornado_get_current_user (bearer token) \<noteq> None)
     = (token \<in> set [''valid-token'', ''admin-token''])"
  by (auto simp: flask_protected_def flask_require_auth_def rate_limit_def protected_resource_def
        bearer_header fastapi_get_current_user_def user_map_def authenticate_def token_users_def
        bearer_def startswith_def tornado_get_current_user_def tornado_token_users_def str_arg_def
        split: if_splits)

text \<open>
  Claim C6 says that in every framework exactly the three tokens \<^verbatim>\<open>valid-token\<close>,
  \<^verbatim>\<open>admin-token\<close> and \<^verbatim>\<open>user-token\<close> authenticate. The table of Tornado's
  \<^verbatim>\<open>get_current_user\<close> has two entries: \<^verbatim>\<open>user-token\<close>, which Flask, FastAPI and
  Starlette accept, is answered with 401 by a Tornado endpoint behind
  \<^verbatim>\<open>authenticated_async\<close>.
\<close>

theorem tornado_user_token_rejected:
  "tornado_get_current_user (bearer ''user-token'') = None
   \<and> status (tornado_protected_get (bearer ''user-token'')) = 401
   \<and> status (flask_protected (bearer ''user-token'')) = 200
   \<and> map_option sa_username (authenticate (bearer ''user-token'')) = Some ''user''
   \<and> status (protected_endpoint (bearer ''user-token'')) = 200
   \<and> (case fastapi_get_current_user ''user-token'' of Inr u \<Rightarrow> fa_username u = ''alice'' | Inl e \<Rightarrow> False)
   \<and> map fst tornado_token_users = [''valid-token'', ''admin-token'']"
  by (simp add: tornado_get_current_user_def tornado_protected_get_def authenticated_async_def
        tornado_token_users_def bearer_def str_arg_def startswith_def flask_protected_def
        flask_require_auth_def rate_limit_def protected_resource_def authenticate_def
        token_users_def protected_endpoint_def fastapi_get_current_user_def user_map_def)

subsection \<open>Upload size cap\<close>

text \<open>
  The claim that the Starlette handler rejects a multi-file request whose combined
  payload exceeds the cap fails on two files of 6 MiB: \<^verbatim>\<open>upload_handler\<close> compares
  each \<^verbatim>\<open>file_size\<close> with the cap, \<^verbatim>\<open>total_size\<close> is only reported.
\<close>

theorem upload_combined_counterexample:
  "status (upload_handler (bearer ''valid-token'')
      [(''first'', FormFile (big_file ''a.bin'')), (''second'', FormFile (big_file ''b.bin''))]) = 201
   \<and> length (up_content (big_file ''a.bin'')) + length (up_content (big_file ''b.bin''))
       > 10 * 1024 * 1024"
  by (simp add: upload_handler_def authenticate_def bearer_def startswith_def token_users_def
        big_file_def Let_def form_items_def)

lemma upload_loop_Inl_iff:
  "(\<exists>msg. upload_loop items uploaded_files total_size = Inl msg) = list_ex oversized items"
proof (induction items uploaded_files total_size rule: upload_loop.induct)
  case (1 uploaded_files total_size)
  show ?case by simp
next
  case (2 field_name v items uploaded_files total_size)
  then show ?case by (simp add: oversized_def)
next
  case (3 field_name file_data items uploaded_files total_size)
  show ?case
  proof (cases "length (up_content file_data) > 10 * 1024 * 1024")
    case True
    then show ?thesis by (simp add: Let_def oversized_def)
  next
    case False
    with 3 show ?thesis by (simp add: Let_def oversized_def)
  qed
qed

text \<open>
  Claim C5, as amended. An authenticated POST to a file-upload endpoint is answered
  with 413 exactly when a file the handler reads exceeds \<open>10*1024*1024\<close> bytes: the
  single file of the FastAPI handler, and for the Starlette handler one of the
  items of \<^verbatim>\<open>form.items()\<close>, which holds for each field name the last part sent under
  it. The cap is per file: a request none of whose items is a file above the cap
  is never answered with 413, whatever its combined size.
\<close>

theorem upload_too_large:
  "(status (upload_file token (Some file_data)) = 413)
      = (token \<in> set [''valid-token'', ''admin-token'', ''user-token'']
         \<and> length (up_content file_data) > 10 * 1024 * 1024)
   \<and> (status (upload_handler authorization form) = 413)
      = (authenticate authorization \<noteq> None \<and> list_ex oversized (form_items form))
   \<and> (authenticate (bearer token) \<noteq> None)
      = (token \<in> set [''valid-token'', ''admin-token'', ''user-token''])"
proof -
  have a: "(status (upload_file token (Some file_data)) = 413)
      = (token \<in> set [''valid-token'', ''admin-token'', ''user-token'']
         \<and> length (up_content file_data) > 10 * 1024 * 1024)"
    by (auto simp: upload_file_def fastapi_get_current_user_def user_map_def raise_http_def Let_def)
  have b: "(status (upload_handler authorization form) = 413)
      = (authenticate authorization \<noteq> None \<and> list_ex oversized (form_items form))"
  proof (cases "authenticate authorization")
    case None
    then show ?thesis by (simp add: upload_handler_def)
  next
    case (Some a)
    show ?thesis
    proof (cases "upload_loop (form_items form) [] 0")
      case (Inl msg)
      with upload_loop_Inl_iff [of "form_items form" "[]" 0] Some show ?thesis
        by (simp add: upload_handler_def)
    next
      case (Inr r)
      with upload_loop_Inl_iff [of "form_items form" "[]" 0] Some show ?thesis
        by (cases r) (simp add: upload_handler_def)
    qed
  qed
  have c: "(authenticate (bearer token) \<noteq> None)
      = (token \<in> set [''valid-token'', ''admin-token'', ''user-token''])"
    by (auto simp: authenticate_def bearer_def startswith_def token_users_def)
  from a b c show ?thesis by blast
qed

theorem upload_too_large_witness:
  "status (upload_file ''user-token'' (Some huge_file)) = 413
   \<and> status (upload_file ''user-token'' (Some (big_file ''a.bin''))) \<noteq> 413
   \<and> form_items [(''file'', FormFile (big_file ''a.bin'')), (''file'', FormFile huge_file)]
        = [(''file'', FormFile huge_file)]
   \<and> status (upload_handler (bearer ''user-token'')
        [(''file'', FormFile (big_file ''a.bin'')), (''file'', FormFile huge_file)]) = 413
   \<and> form_items [(''file'', FormFile huge_file), (''file'', FormFile (big_file ''a.bin''))]
        = [(''file'', FormFile (big_file ''a.bin''))]
   \<and> status (upload_handler (bearer ''user-token'')
        [(''file'', FormFile huge_file), (''file'', FormFile (big_file ''a.bin''))]) \<noteq> 413"
proof -
  have i: "form_items [(''file'', FormFile (big_file ''a.bin'')), (''file'', FormFile huge_file)]
        = [(''file'', FormFile huge_file)]"
    "form_items [(''file'', FormFile huge_file), (''file'', FormFile (big_file ''a.bin''))]
        = [(''file'', FormFile (big_file ''a.bin''))]"
    by (simp_all add: form_items_def)
  have o: "oversized (''file'', FormFile huge_file)" "\<not> oversized (''file'', FormFile (big_file ''a.bin''))"
    "10485760 < length (up_content huge_file)"
    "\<not> 10485760 < length (up_content (big_file ''a.bin''))"
    by (simp_all add: oversized_def huge_file_def big_file_def)
  show ?thesis
    using upload_too_large [of "''user-token''" huge_file "bearer ''user-token''"
             "[(''file'', FormFile (big_file ''a.bin'')), (''file'', FormFile huge_file)]"]
          upload_too_large [of "''user-token''" "big_file ''a.bin''" "bearer ''user-token''"
             "[(''file'', FormFile huge_file), (''file'', FormFile (big_file ''a.bin''))]"]
    by (simp add: i o)
qed

subsection \<open>WebSocket frames\<close>


text \<open>An exception of \<^verbatim>\<open>json.loads\<close> other than \<^verbatim>\<open>JSONDecodeError\<close> is not caught where
  the text is wrapped: it ends the pass.\<close>

lemma loads_exception_not_caught:
  "fastapi_websocket_pass data (Raises e) = Inl e"
  "starlette_websocket_pass data (Raises e) = Inl e"
  "on_message self data (Raises e) st = (st, Some e)"
  by (simp_all add: fastapi_websocket_pass_def starlette_websocket_pass_def on_message_def)


subsection \<open>Tornado broadcast\<close>

lemma broadcast_loop_size_changed:
  "length (connections st) \<noteq> used \<Longrightarrow>
     broadcast_loop used cs self msg st = (st, Some RuntimeError)"
  by (cases cs) simp_all

lemma length_removeAll_less:
  "x \<in> set xs \<Longrightarrow> length (removeAll x xs) < length xs"
  by (induction xs) (auto simp: less_Suc_eq_le length_removeAll_less_eq)

text \<open>A peer whose write fails is discarded, and the next step of the iteration
  raises: the broadcast ends with \<^verbatim>\<open>RuntimeError\<close>.\<close>

lemma broadcast_loop_failing_peer:
  "c \<in> set cs \<Longrightarrow> c \<noteq> self \<Longrightarrow> c \<in> set (closing st) \<Longrightarrow> set cs \<subseteq> set (connections st) \<Longrightarrow>
     snd (broadcast_loop (length (connections st)) cs self msg st) = Some RuntimeError"
proof (induction cs arbitrary: st)
  case Nil
  then show ?case by simp
next
  case (Cons x xs)
  show ?case
  proof (cases "x = self")
    case True
    with Cons.prems have "c \<in> set xs" "set xs \<subseteq> set (connections st)" by auto
    with Cons.IH [of st] Cons.prems True show ?thesis by simp
  next
    case False
    show ?thesis
    proof (cases "x \<in> set (closing st)")
      case True
      from Cons.prems have "x \<in> set (connections st)" by simp
      then have "length (connections (discard x st)) \<noteq> length (connections st)"
        using length_removeAll_less [of x "connections st"] by (simp add: discard_def)
      then have "broadcast_loop (length (connections st)) xs self msg (discard x st)
                   = (discard x st, Some RuntimeError)"
        by (rule broadcast_loop_size_changed)
      with False True show ?thesis by (simp add: write_message_def)
    next
      case notclosing: False
      let ?st = "st\<lparr>outbox := outbox st @ [(x, msg)]\<rparr>"
      from notclosing Cons.prems have "c \<noteq> x" by auto
      with Cons.prems have "c \<in> set xs" "set xs \<subseteq> set (connections ?st)" "c \<in> set (closing ?st)"
        by auto
      with Cons.IH [of ?st] Cons.prems have
        "snd (broadcast_loop (length (connections ?st)) xs self msg ?st) = Some RuntimeError"
        by blast
      with False notclosing show ?thesis by (simp add: write_message_def)
    qed
  qed
qed

lemma broadcast_failing_peer_raises:
  "c \<in> set (connections st) \<Longrightarrow> c \<noteq> self \<Longrightarrow> c \<in> set (closing st) \<Longrightarrow>
   dict_get d ''type'' (JStr ''echo'') = JStr ''broadcast'' \<Longrightarrow>
     snd (process_message self (JDict d) st) = Some RuntimeError"
  using broadcast_loop_failing_peer [of c "connections st" self st]
  by (simp add: process_message_def Let_def)

text \<open>When no write fails, every peer other than the sender receives the message,
  in the order of the iteration, and the set is unchanged.\<close>

lemma broadcast_loop_no_failure:
  "set cs \<inter> set (closing st) = {} \<Longrightarrow>
     broadcast_loop (length (connections st)) cs self msg st
       = (st\<lparr>outbox := outbox st @ map (\<lambda>c. (c, msg)) (filter (\<lambda>c. c \<noteq> self) cs)\<rparr>, None)"
proof (induction cs arbitrary: st)
  case Nil
  then show ?case by simp
next
  case (Cons x xs)
  let ?st = "st\<lparr>outbox := outbox st @ [(x, msg)]\<rparr>"
  from Cons.prems have x: "x \<notin> set (closing st)" and xs: "set xs \<inter> set (closing st) = {}" by auto
  show ?case
  proof (cases "x = self")
    case True
    with Cons.IH [OF xs] show ?thesis by simp
  next
    case False
    from xs have "set xs \<inter> set (closing ?st) = {}" by simp
    from Cons.IH [OF this] False x show ?thesis by (simp add: write_message_def)
  qed
qed

text \<open>
  Claim C7 says that a failed write removes only that peer and that the broadcast
  still completes, delivering to every remaining peer other than the sender. With
  the sender 1 and the peers 2 and 3 connected, and the write to peer 2 failing,
  peer 2 is discarded, the loop then raises \<^verbatim>\<open>RuntimeError\<close>, and peer 3, which is
  still connected, has received nothing.
\<close>

theorem broadcast_write_failure_aborts:
  "process_message 1 (JDict [(''type'', JStr ''broadcast''), (''content'', JStr ''hi'')])
      \<lparr>connections = [1, 2, 3], closing = [2], outbox = []\<rparr>
   = (\<lparr>connections = [1, 3], closing = [2], outbox = []\<rparr>, Some RuntimeError)"
  by (simp add: process_message_def dict_get_def write_message_def discard_def Let_def)

end
